theory Spec2Isabelle
  imports Complex_Main "HOL-Library.Multiset"
begin

section \<open>Wheel of Life: the priority scorer and the mail endpoint\<close>

text \<open>
  The repository holds one piece of arithmetic, \<open>calculateResults\<close>, written twice
  (in \<open>server/routes.ts\<close> and in the client page component), the shared schema
  (\<open>lifeCategories\<close>, \<open>lifeCategoryLabels\<close>, \<open>assessmentSchema\<close>,
  \<open>emailResultsSchema\<close>) and the handler of \<open>POST /api/email-results\<close>.

  Numbers. A JavaScript number is an IEEE double. The model takes the exact value of a
  finite double, a rational, and computes with it exactly.
  \<^item> Comparisons are the program's: the schema compares a rating with 1 and 10, the sort
    looks at the sign of a difference, and a double difference has the sign of the exact
    one.
  \<^item> The scorer's \<open>10 - s\<close> and \<open>(10 - s) * m\<close> are the program's where the double
    operations are exact. On the ratings of the data model, integers from 1 to 10, they
    are: every value is an integer between 0 and 90 (lemma \<open>integer_ratings_exact\<close>).
    At a rating that is not an integer the program rounds the result to a double and the
    model does not; what is stated about the values computed is stated for integer
    ratings only.
  \<^item> NaN, the infinities and negative zero are outside the model; none of them is a JSON
    number, and the schema admits none of them.
\<close>

type_synonym number = rat

subsection \<open>The shared schema: categories and labels\<close>

definition lifeCategories :: "string list" where
  "lifeCategories =
     [''health'', ''relationships'', ''romance'', ''personal'',
      ''fun'', ''community'', ''career'', ''finances'']"

definition lifeCategoryLabels :: "string \<rightharpoonup> string" where
  "lifeCategoryLabels = map_of
     [(''health'', ''Health & Fitness''),
      (''relationships'', ''Friends & Family''),
      (''romance'', ''Romance / Love Life''),
      (''personal'', ''Personal Development''),
      (''fun'', ''Fun & Recreation''),
      (''community'', ''Community & Contribution''),
      (''career'', ''Career / Business''),
      (''finances'', ''Finances'')]"

subsection \<open>The data of the scorer\<close>

text \<open>
  \<open>RankedEntry\<close> is the element type of \<open>CalculatedResults.priorityRanked\<close>;
  \<open>AssessmentData\<close> is the type inferred from \<open>assessmentSchema\<close>: two objects used as
  dictionaries from any string key to a number. The three records share field names, as
  the TypeScript types do, so fields are written with their record's name.
\<close>

record RankedEntry =
  category :: string
  label :: string
  satisfaction :: number
  motivation :: number
  improvement :: number
  priority :: number

record AssessmentData =
  satisfaction :: "string \<rightharpoonup> number"
  motivation :: "string \<rightharpoonup> number"

record CalculatedResults =
  satisfaction :: "string \<rightharpoonup> number"
  motivation :: "string \<rightharpoonup> number"
  improvement :: "string \<rightharpoonup> number"
  priority :: "string \<rightharpoonup> number"
  priorityRanked :: "RankedEntry list"

subsection \<open>JavaScript operations the scorer uses\<close>

text \<open>
  \<open>obj[key] || d\<close> on a dictionary of numbers: the property read gives \<open>undefined\<close>
  for an absent key, and \<open>||\<close> takes its right operand when the left one is falsy. The
  falsy values a finite number or \<open>undefined\<close> can be are \<open>undefined\<close> and \<open>0\<close>.
\<close>

fun falsy_or :: "number option \<Rightarrow> number \<Rightarrow> number" where
  "falsy_or None d = d"
| "falsy_or (Some v) d = (if v = 0 then d else v)"

text \<open>
  \<open>Array.prototype.sort(cmp)\<close> belongs to the language, not to the repository.
  ECMAScript (2019 and later) specifies it stable: \<open>a\<close> is placed after a later element
  \<open>b\<close> only when \<open>cmp(a, b) > 0\<close>. For a comparator that is consistent, as a difference
  of finite keys is, the sorted array is determined by that, and insertion from the right
  computes it.
\<close>

fun sort_insert :: "('a \<Rightarrow> 'a \<Rightarrow> number) \<Rightarrow> 'a \<Rightarrow> 'a list \<Rightarrow> 'a list" where
  "sort_insert cmp a [] = [a]"
| "sort_insert cmp a (b # bs) =
     (if 0 < cmp a b then b # sort_insert cmp a bs else a # b # bs)"

fun array_sort :: "('a \<Rightarrow> 'a \<Rightarrow> number) \<Rightarrow> 'a list \<Rightarrow> 'a list" where
  "array_sort cmp [] = []"
| "array_sort cmp (a # as) = sort_insert cmp a (array_sort cmp as)"

subsection \<open>calculateResults (server/routes.ts)\<close>

text \<open>
  The body of the \<open>forEach\<close> callback: four property writes on \<open>results\<close> for one
  category. The difference and the product are exact here; they are the program's doubles
  at integer ratings (see the note on numbers above).
\<close>

definition score_category :: "AssessmentData \<Rightarrow> string \<Rightarrow> CalculatedResults \<Rightarrow> CalculatedResults" where
  "score_category assessmentData c results =
     (let s = falsy_or (AssessmentData.satisfaction assessmentData c) 1;
          m = falsy_or (AssessmentData.motivation assessmentData c) 1
      in results
           \<lparr> CalculatedResults.satisfaction := (CalculatedResults.satisfaction results)(c \<mapsto> s),
             CalculatedResults.motivation := (CalculatedResults.motivation results)(c \<mapsto> m),
             CalculatedResults.improvement := (CalculatedResults.improvement results)(c \<mapsto> 10 - s),
             CalculatedResults.priority := (CalculatedResults.priority results)(c \<mapsto> (10 - s) * m) \<rparr>)"

text \<open>
  The callback of \<open>map\<close>: one entry, read back from the four dictionaries. The reads are
  of keys the loop has written (lemma \<open>rank_entry_reads_defined\<close> below), so \<open>the\<close> is never
  applied to \<open>None\<close>.
\<close>

definition rank_entry :: "CalculatedResults \<Rightarrow> string \<Rightarrow> RankedEntry" where
  "rank_entry results c =
     \<lparr> RankedEntry.category = c,
       RankedEntry.label = the (lifeCategoryLabels c),
       RankedEntry.satisfaction = the (CalculatedResults.satisfaction results c),
       RankedEntry.motivation = the (CalculatedResults.motivation results c),
       RankedEntry.improvement = the (CalculatedResults.improvement results c),
       RankedEntry.priority = the (CalculatedResults.priority results c) \<rparr>"

definition empty_results :: CalculatedResults where
  "empty_results =
     \<lparr> CalculatedResults.satisfaction = Map.empty,
       CalculatedResults.motivation = Map.empty,
       CalculatedResults.improvement = Map.empty,
       CalculatedResults.priority = Map.empty,
       CalculatedResults.priorityRanked = [] \<rparr>"

definition calculateResults :: "AssessmentData \<Rightarrow> CalculatedResults" where
  "calculateResults assessmentData =
     (let results = fold (score_category assessmentData) lifeCategories empty_results
      in results \<lparr> CalculatedResults.priorityRanked :=
                     array_sort (\<lambda>a b. RankedEntry.priority b - RankedEntry.priority a)
                       (map (rank_entry results) lifeCategories) \<rparr>)"

subsection \<open>calculateResults (client page component)\<close>

text \<open>
  The client's copy is a closure over the component's \<open>assessmentData\<close> state, which is
  its argument here. The sliders that fill the state move in steps of 1 from 1 to 10, so
  the state holds integer ratings, where the arithmetic below is the program's.
\<close>

definition client_score_category :: "AssessmentData \<Rightarrow> string \<Rightarrow> CalculatedResults \<Rightarrow> CalculatedResults" where
  "client_score_category assessmentData c results =
     (let s = falsy_or (AssessmentData.satisfaction assessmentData c) 1;
          m = falsy_or (AssessmentData.motivation assessmentData c) 1
      in results
           \<lparr> CalculatedResults.satisfaction := (CalculatedResults.satisfaction results)(c \<mapsto> s),
             CalculatedResults.motivation := (CalculatedResults.motivation results)(c \<mapsto> m),
             CalculatedResults.improvement := (CalculatedResults.improvement results)(c \<mapsto> 10 - s),
             CalculatedResults.priority := (CalculatedResults.priority results)(c \<mapsto> (10 - s) * m) \<rparr>)"

definition client_rank_entry :: "CalculatedResults \<Rightarrow> string \<Rightarrow> RankedEntry" where
  "client_rank_entry results c =
     \<lparr> RankedEntry.category = c,
       RankedEntry.label = the (lifeCategoryLabels c),
       RankedEntry.satisfaction = the (CalculatedResults.satisfaction results c),
       RankedEntry.motivation = the (CalculatedResults.motivation results c),
       RankedEntry.improvement = the (CalculatedResults.improvement results c),
       RankedEntry.priority = the (CalculatedResults.priority results c) \<rparr>"

definition client_calculateResults :: "AssessmentData \<Rightarrow> CalculatedResults" where
  "client_calculateResults assessmentData =
     (let results = fold (client_score_category assessmentData) lifeCategories empty_results
      in results \<lparr> CalculatedResults.priorityRanked :=
                     array_sort (\<lambda>a b. RankedEntry.priority b - RankedEntry.priority a)
                       (map (client_rank_entry results) lifeCategories) \<rparr>)"

subsection \<open>Request bodies and the zod schemas (shared/schema.ts)\<close>

text \<open>
  \<open>req.body\<close> is a parsed JSON value. An object is the list of its properties; a parsed
  object has no key twice, and a property read is \<open>map_of\<close> (\<open>None\<close> for
  \<open>undefined\<close>).
\<close>

datatype json =
    JNull
  | JBool bool
  | JNum number
  | JStr string
  | JArr "json list"
  | JObj "(string \<times> json) list"

datatype error = ZodError

text \<open>\<open>z.number().min(1).max(10)\<close>: a number, at least 1, at most 10. Nothing else is asked.\<close>

fun z_number_min1_max10 :: "json \<Rightarrow> error + number" where
  "z_number_min1_max10 (JNum v) = (if 1 \<le> v \<and> v \<le> 10 then Inr v else Inl ZodError)"
| "z_number_min1_max10 _ = Inl ZodError"

text \<open>\<open>z.record(valueSchema)\<close>: an object, every property value of which parses.\<close>

fun record_entries :: "(json \<Rightarrow> error + 'a) \<Rightarrow> (string \<times> json) list \<Rightarrow> error + (string \<times> 'a) list" where
  "record_entries valueSchema [] = Inr []"
| "record_entries valueSchema ((k, j) # kvs) =
     (case valueSchema j of
        Inl e \<Rightarrow> Inl e
      | Inr v \<Rightarrow>
          (case record_entries valueSchema kvs of
             Inl e \<Rightarrow> Inl e
           | Inr vs \<Rightarrow> Inr ((k, v) # vs)))"

fun z_record :: "(json \<Rightarrow> error + 'a) \<Rightarrow> json \<Rightarrow> error + (string \<times> 'a) list" where
  "z_record valueSchema (JObj kvs) = record_entries valueSchema kvs"
| "z_record valueSchema _ = Inl ZodError"

fun z_string :: "json \<Rightarrow> error + string" where
  "z_string (JStr s) = Inr s"
| "z_string _ = Inl ZodError"

fun z_boolean :: "json \<Rightarrow> error + bool" where
  "z_boolean (JBool b) = Inr b"
| "z_boolean _ = Inl ZodError"

text \<open>
  \<open>z.string().email()\<close> tests the string against a pattern of the zod library. The
  pattern is not part of the repository; it is the parameter \<open>is_email\<close>.
\<close>

fun z_string_email :: "(string \<Rightarrow> bool) \<Rightarrow> json \<Rightarrow> error + string" where
  "z_string_email is_email (JStr s) = (if is_email s then Inr s else Inl ZodError)"
| "z_string_email is_email _ = Inl ZodError"

text \<open>A key of \<open>z.object\<close>: required, or \<open>.optional()\<close>.\<close>

fun required :: "(json \<Rightarrow> error + 'a) \<Rightarrow> json option \<Rightarrow> error + 'a" where
  "required schema None = Inl ZodError"
| "required schema (Some j) = schema j"

fun optional :: "(json \<Rightarrow> error + 'a) \<Rightarrow> json option \<Rightarrow> error + 'a option" where
  "optional schema None = Inr None"
| "optional schema (Some j) = (case schema j of Inl e \<Rightarrow> Inl e | Inr v \<Rightarrow> Inr (Some v))"

fun assessmentSchema :: "json \<Rightarrow> error + AssessmentData" where
  "assessmentSchema (JObj props) =
     (case required (z_record z_number_min1_max10) (map_of props ''satisfaction'') of
        Inl e \<Rightarrow> Inl e
      | Inr s \<Rightarrow>
          (case required (z_record z_number_min1_max10) (map_of props ''motivation'') of
             Inl e \<Rightarrow> Inl e
           | Inr m \<Rightarrow>
               Inr \<lparr> AssessmentData.satisfaction = map_of s,
                     AssessmentData.motivation = map_of m \<rparr>))"
| "assessmentSchema _ = Inl ZodError"

record EmailResultsRequest =
  email :: string
  name :: "string option"
  updates :: "bool option"
  assessmentData :: AssessmentData

fun emailResultsSchema :: "(string \<Rightarrow> bool) \<Rightarrow> json \<Rightarrow> error + EmailResultsRequest" where
  "emailResultsSchema is_email (JObj props) =
     (case required (z_string_email is_email) (map_of props ''email'') of
        Inl e \<Rightarrow> Inl e
      | Inr em \<Rightarrow>
     (case optional z_string (map_of props ''name'') of
        Inl e \<Rightarrow> Inl e
      | Inr nm \<Rightarrow>
     (case optional z_boolean (map_of props ''updates'') of
        Inl e \<Rightarrow> Inl e
      | Inr up \<Rightarrow>
     (case required assessmentSchema (map_of props ''assessmentData'') of
        Inl e \<Rightarrow> Inl e
      | Inr ad \<Rightarrow>
          Inr \<lparr> email = em, name = nm, updates = up, assessmentData = ad \<rparr>))))"
| "emailResultsSchema is_email _ = Inl ZodError"

subsection \<open>The handler of POST /api/email-results (server/routes.ts)\<close>

text \<open>
  The handler reads two environment variables, builds a transport and sends one mail.
  Its effects are a trace: the call of \<open>calculateResults\<close> and the call of
  \<open>transporter.sendMail\<close>, each with its arguments. The transport is the parameter
  \<open>sendMail\<close>: \<open>True\<close> when the promise resolves, \<open>False\<close> when it rejects.

  \<open>generateEmailHTML\<close> fills a fixed page with a greeting and the first three ranked
  entries; \<open>EmailHTML\<close> holds these two and leaves the markup out.
\<close>

record Response =
  status :: nat
  success :: bool
  message :: string

record Auth =
  user :: "string option"
  pass :: "string option"

record EmailHTML =
  greeting :: string
  topPriorities :: "RankedEntry list"

record Mail =
  from_user :: "string option"
  to :: string
  subject :: string
  html :: EmailHTML

datatype event =
    is_Scored: Scored AssessmentData
  | is_SendMail: SendMail Auth Mail

definition generateEmailHTML :: "CalculatedResults \<Rightarrow> string option \<Rightarrow> EmailHTML" where
  "generateEmailHTML results nm =
     \<lparr> greeting = (case nm of
                      None \<Rightarrow> ''Hello,''
                    | Some n \<Rightarrow> if n = [] then ''Hello,'' else ''Hi '' @ n @ '',''),
       topPriorities = take 3 (CalculatedResults.priorityRanked results) \<rparr>"

text \<open>\<open>!process.env.X\<close>: the variable is unset, or set to the empty string.\<close>

fun unset :: "string option \<Rightarrow> bool" where
  "unset None = True"
| "unset (Some s) = (s = [])"

definition not_configured :: Response where
  "not_configured =
     \<lparr> status = 500, success = False,
       message = ''Email service is not configured. Please contact support.'' \<rparr>"

definition sent :: Response where
  "sent = \<lparr> status = 200, success = True, message = ''Results sent successfully!'' \<rparr>"

definition failed :: Response where
  "failed =
     \<lparr> status = 500, success = False,
       message = ''Failed to send email. Please check your email address and try again.'' \<rparr>"

definition email_results ::
  "(string \<Rightarrow> bool) \<Rightarrow> (Auth \<Rightarrow> Mail \<Rightarrow> bool) \<Rightarrow> (string \<rightharpoonup> string) \<Rightarrow> json \<Rightarrow> Response \<times> event list" where
  "email_results is_email sendMail env body =
     (if unset (env ''GMAIL_USER'') \<or> unset (env ''GMAIL_APP_PASSWORD'')
      then (not_configured, [])
      else
        (case emailResultsSchema is_email body of
           Inl e \<Rightarrow> (failed, [])
         | Inr validatedData \<Rightarrow>
             (let results = calculateResults (assessmentData validatedData);
                  transporter = \<lparr> user = env ''GMAIL_USER'', pass = env ''GMAIL_APP_PASSWORD'' \<rparr>;
                  emailHTML = generateEmailHTML results (name validatedData);
                  mail = \<lparr> from_user = env ''GMAIL_USER'',
                           to = email validatedData,
                           subject = ''Your Wheel of Life Assessment Results'',
                           html = emailHTML \<rparr>;
                  trace = [Scored (assessmentData validatedData), SendMail transporter mail]
              in if sendMail transporter mail then (sent, trace) else (failed, trace))))"

subsection \<open>Notions of the specification\<close>

text \<open>
  The specification reads a rating with a default for an absent entry only
  (\<open>input.satisfaction[category] ?? 1\<close>); the code uses \<open>falsy_or\<close>.
\<close>

fun nullish_or :: "number option \<Rightarrow> number \<Rightarrow> number" where
  "nullish_or None d = d"
| "nullish_or (Some v) d = v"

text \<open>
  The invariant of an AssessmentInput, at one entry: a rating that is present is a Rating,
  an integer in the inclusive range [1, 10].
\<close>

definition is_integer :: "number \<Rightarrow> bool" where
  "is_integer v = (of_int \<lfloor>v\<rfloor> = v)"

fun rating_or_absent :: "number option \<Rightarrow> bool" where
  "rating_or_absent None = True"
| "rating_or_absent (Some v) = (is_integer v \<and> 1 \<le> v \<and> v \<le> 10)"

text \<open>The position of a category in the fixed enumeration.\<close>

fun index_of :: "'a list \<Rightarrow> 'a \<Rightarrow> nat" where
  "index_of [] x = 0"
| "index_of (y # ys) x = (if x = y then 0 else Suc (index_of ys x))"

text \<open>
  The order of the ranking: a higher priority first, and among equal priorities the
  category that the enumeration lists first.
\<close>

definition ranked_before :: "RankedEntry \<Rightarrow> RankedEntry \<Rightarrow> bool" where
  "ranked_before a b =
     (RankedEntry.priority b < RankedEntry.priority a \<or>
      (RankedEntry.priority a = RankedEntry.priority b \<and>
       index_of lifeCategories (RankedEntry.category a) < index_of lifeCategories (RankedEntry.category b)))"

subsection \<open>Inputs used as examples\<close>

definition example_input :: AssessmentData where
  "example_input =
     \<lparr> AssessmentData.satisfaction = [''health'' \<mapsto> 7],
       AssessmentData.motivation = [''health'' \<mapsto> 9] \<rparr>"

definition empty_input :: AssessmentData where
  "empty_input = \<lparr> AssessmentData.satisfaction = Map.empty, AssessmentData.motivation = Map.empty \<rparr>"

definition full_input :: AssessmentData where
  "full_input =
     \<lparr> AssessmentData.satisfaction = map_of
         [(''health'', 7), (''relationships'', 8), (''romance'', 3), (''personal'', 5),
          (''fun'', 3), (''community'', 6), (''career'', 4), (''finances'', 10)],
       AssessmentData.motivation = map_of
         [(''health'', 9), (''relationships'', 2), (''romance'', 10), (''personal'', 6),
          (''fun'', 10), (''community'', 1), (''career'', 5), (''finances'', 10)] \<rparr>"

definition noisy_input :: AssessmentData where
  "noisy_input =
     \<lparr> AssessmentData.satisfaction = [''health'' \<mapsto> 7, ''pets'' \<mapsto> 2],
       AssessmentData.motivation = [''health'' \<mapsto> 9, ''sleep'' \<mapsto> 10, ''x'' \<mapsto> 4] \<rparr>"

definition zero_input :: AssessmentData where
  "zero_input =
     \<lparr> AssessmentData.satisfaction = [''health'' \<mapsto> 0, ''career'' \<mapsto> 4],
       AssessmentData.motivation = [''health'' \<mapsto> 9, ''career'' \<mapsto> 0] \<rparr>"

subsection \<open>Notions of the specification: requests\<close>

fun prop_of :: "json \<Rightarrow> string \<Rightarrow> json option" where
  "prop_of (JObj props) k = map_of props k"
| "prop_of _ k = None"

text \<open>
  What the schema asks of \<open>assessmentData\<close>: an object whose \<open>satisfaction\<close> and
  \<open>motivation\<close> are objects, every property of which is a number in [1, 10].
\<close>

fun rating_ok :: "json \<Rightarrow> bool" where
  "rating_ok (JNum v) = (1 \<le> v \<and> v \<le> 10)"
| "rating_ok _ = False"

fun ratings_ok :: "json option \<Rightarrow> bool" where
  "ratings_ok (Some (JObj kvs)) = list_all (\<lambda>kv. rating_ok (snd kv)) kvs"
| "ratings_ok _ = False"

fun assessment_ok :: "json \<Rightarrow> bool" where
  "assessment_ok (JObj props) =
     (ratings_ok (map_of props ''satisfaction'') \<and> ratings_ok (map_of props ''motivation''))"
| "assessment_ok _ = False"

definition body_assessment_ok :: "json \<Rightarrow> bool" where
  "body_assessment_ok body =
     (case prop_of body ''assessmentData'' of None \<Rightarrow> False | Some j \<Rightarrow> assessment_ok j)"

text \<open>The \<open>email\<close> field of a body is a valid address: it is there, a string, and an address.\<close>

definition body_email_ok :: "(string \<Rightarrow> bool) \<Rightarrow> json \<Rightarrow> bool" where
  "body_email_ok is_email body =
     (case prop_of body ''email'' of Some (JStr s) \<Rightarrow> is_email s | _ \<Rightarrow> False)"

subsection \<open>Requests used as examples\<close>

text \<open>In the examples an address is any string with an \<open>@\<close>, and every send succeeds.\<close>

definition has_at :: "string \<Rightarrow> bool" where
  "has_at s = (CHR ''@'' \<in> set s)"

definition always_delivers :: "Auth \<Rightarrow> Mail \<Rightarrow> bool" where
  "always_delivers a m = True"

definition configured_env :: "string \<rightharpoonup> string" where
  "configured_env = [''GMAIL_USER'' \<mapsto> ''coach@example.com'', ''GMAIL_APP_PASSWORD'' \<mapsto> ''app-password'']"

definition user_only_env :: "string \<rightharpoonup> string" where
  "user_only_env = [''GMAIL_USER'' \<mapsto> ''coach@example.com'']"

definition half_rating_assessment :: json where
  "half_rating_assessment =
     JObj [(''satisfaction'', JObj [(''health'', JNum (11 / 2))]),
           (''motivation'', JObj [(''health'', JNum 9)])]"

definition half_rating_body :: json where
  "half_rating_body =
     JObj [(''email'', JStr ''ann@example.com''), (''assessmentData'', half_rating_assessment)]"

definition high_rating_body :: json where
  "high_rating_body =
     JObj [(''email'', JStr ''ann@example.com''),
           (''assessmentData'',
              JObj [(''satisfaction'', JObj [(''health'', JNum 11)]),
                    (''motivation'', JObj [])])]"

definition bad_email_body :: json where
  "bad_email_body =
     JObj [(''email'', JStr ''not an address''),
           (''assessmentData'',
              JObj [(''satisfaction'', JObj [(''health'', JNum 7)]),
                    (''motivation'', JObj [(''health'', JNum 9)])])]"

definition good_body :: json where
  "good_body =
     JObj [(''email'', JStr ''ann@example.com''),
           (''name'', JStr ''Ann''),
           (''assessmentData'',
              JObj [(''satisfaction'', JObj [(''health'', JNum 7)]),
                    (''motivation'', JObj [(''health'', JNum 9)])])]"

section \<open>The scorer\<close>

subsection \<open>What the loop writes\<close>

lemma fold_score_category:
  "CalculatedResults.satisfaction (fold (score_category d) cs r) c =
     (if c \<in> set cs then Some (falsy_or (AssessmentData.satisfaction d c) 1)
      else CalculatedResults.satisfaction r c)"
  "CalculatedResults.motivation (fold (score_category d) cs r) c =
     (if c \<in> set cs then Some (falsy_or (AssessmentData.motivation d c) 1)
      else CalculatedResults.motivation r c)"
  "CalculatedResults.improvement (fold (score_category d) cs r) c =
     (if c \<in> set cs then Some (10 - falsy_or (AssessmentData.satisfaction d c) 1)
      else CalculatedResults.improvement r c)"
  "CalculatedResults.priority (fold (score_category d) cs r) c =
     (if c \<in> set cs
      then Some ((10 - falsy_or (AssessmentData.satisfaction d c) 1) * falsy_or (AssessmentData.motivation d c) 1)
      else CalculatedResults.priority r c)"
  by (induction cs arbitrary: r rule: rev_induct) (simp_all add: score_category_def Let_def)

lemma scored_maps:
  "CalculatedResults.satisfaction (calculateResults d) =
     (\<lambda>c. if c \<in> set lifeCategories then Some (falsy_or (AssessmentData.satisfaction d c) 1) else None)"
  "CalculatedResults.motivation (calculateResults d) =
     (\<lambda>c. if c \<in> set lifeCategories then Some (falsy_or (AssessmentData.motivation d c) 1) else None)"
  "CalculatedResults.improvement (calculateResults d) =
     (\<lambda>c. if c \<in> set lifeCategories then Some (10 - falsy_or (AssessmentData.satisfaction d c) 1) else None)"
  "CalculatedResults.priority (calculateResults d) =
     (\<lambda>c. if c \<in> set lifeCategories
      then Some ((10 - falsy_or (AssessmentData.satisfaction d c) 1) * falsy_or (AssessmentData.motivation d c) 1)
      else None)"
  by (rule ext, simp add: calculateResults_def Let_def fold_score_category empty_results_def)+

text \<open>
  Every key that \<open>rank_entry\<close> reads for a fixed category has been written: the reads
  of the second pass never meet \<open>undefined\<close>.
\<close>

lemma rank_entry_reads_defined:
  assumes "c \<in> set lifeCategories"
  shows "CalculatedResults.satisfaction (calculateResults d) c \<noteq> None"
    and "CalculatedResults.motivation (calculateResults d) c \<noteq> None"
    and "CalculatedResults.improvement (calculateResults d) c \<noteq> None"
    and "CalculatedResults.priority (calculateResults d) c \<noteq> None"
    and "lifeCategoryLabels c \<noteq> None"
  using assms by (simp_all add: scored_maps) (auto simp: lifeCategories_def lifeCategoryLabels_def)

lemma is_integer_Ints: "is_integer v = (v \<in> \<int>)"
  unfolding is_integer_def by (auto simp: Ints_def)

lemma falsy_or_rating: "rating_or_absent x \<Longrightarrow> falsy_or x 1 = nullish_or x 1"
  by (cases x) auto

text \<open>
  On integer ratings from 1 to 10 the values the scorer computes are integers, from 0 to 9
  and from 0 to 90: the double subtraction and multiplication of the program are exact
  there, and the exact arithmetic of the model is the program's.
\<close>

lemma integer_ratings_exact:
  assumes "rating_or_absent x" and "rating_or_absent y"
  shows "10 - nullish_or x 1 \<in> \<int>"
    and "0 \<le> 10 - nullish_or x 1" and "10 - nullish_or x 1 \<le> 9"
    and "(10 - nullish_or x 1) * nullish_or y 1 \<in> \<int>"
    and "0 \<le> (10 - nullish_or x 1) * nullish_or y 1"
    and "(10 - nullish_or x 1) * nullish_or y 1 \<le> 90"
proof -
  let ?s = "nullish_or x 1" and ?m = "nullish_or y 1"
  from assms(1) have s: "?s \<in> \<int>" "1 \<le> ?s" "?s \<le> 10"
    by (cases x; simp add: is_integer_Ints)+
  from assms(2) have m: "?m \<in> \<int>" "1 \<le> ?m" "?m \<le> 10"
    by (cases y; simp add: is_integer_Ints)+
  show i: "10 - ?s \<in> \<int>" using s(1) by (simp add: Ints_diff)
  show lo: "0 \<le> 10 - ?s" using s(3) by simp
  show hi: "10 - ?s \<le> 9" using s(2) by simp
  show "(10 - ?s) * ?m \<in> \<int>" using i m(1) by (rule Ints_mult)
  show "0 \<le> (10 - ?s) * ?m" using lo m(2) by simp
  have "(10 - ?s) * ?m \<le> 9 * 10"
    using hi m(3) lo m(2) by (intro mult_mono) simp_all
  then show "(10 - ?s) * ?m \<le> 90" by simp
qed

text \<open>
  Claim C1. For each of the 8 fixed categories the scorer stores
  \<open>improvement = 10 - satisfaction\<close> and \<open>priority = (10 - satisfaction) * motivation\<close>,
  where satisfaction and motivation are the input's ratings for the category, and 1 where
  the input has none. The input is an AssessmentInput: a rating that is present is an
  integer in [1, 10] (only the two entries of the category are asked to be).
\<close>

theorem calculateResults_improvement_priority:
  assumes "c \<in> set lifeCategories"
    and "rating_or_absent (AssessmentData.satisfaction d c)"
    and "rating_or_absent (AssessmentData.motivation d c)"
  shows "CalculatedResults.improvement (calculateResults d) c =
           Some (10 - nullish_or (AssessmentData.satisfaction d c) 1)
       \<and> CalculatedResults.priority (calculateResults d) c =
           Some ((10 - nullish_or (AssessmentData.satisfaction d c) 1)
                 * nullish_or (AssessmentData.motivation d c) 1)"
  using assms by (simp add: scored_maps falsy_or_rating)

text \<open>
  The scenario of the specification: health rated 7 and 9, every other category absent.
\<close>

theorem calculateResults_improvement_priority_witness:
  "''health'' \<in> set lifeCategories
   \<and> rating_or_absent (AssessmentData.satisfaction example_input ''health'')
   \<and> rating_or_absent (AssessmentData.motivation example_input ''health'')
   \<and> CalculatedResults.improvement (calculateResults example_input) ''health'' = Some 3
   \<and> CalculatedResults.priority (calculateResults example_input) ''health'' = Some 27
   \<and> ''fun'' \<in> set lifeCategories
   \<and> rating_or_absent (AssessmentData.satisfaction example_input ''fun'')
   \<and> rating_or_absent (AssessmentData.motivation example_input ''fun'')
   \<and> CalculatedResults.improvement (calculateResults example_input) ''fun'' = Some 9
   \<and> CalculatedResults.priority (calculateResults example_input) ''fun'' = Some 9"
  using calculateResults_improvement_priority [of "''health''" example_input]
    calculateResults_improvement_priority [of "''fun''" example_input]
  by (simp add: lifeCategories_def example_input_def is_integer_def)

subsection \<open>The ranking\<close>

lemma mset_sort_insert: "mset (sort_insert cmp a bs) = add_mset a (mset bs)"
  by (induction bs) simp_all

lemma mset_array_sort: "mset (array_sort cmp xs) = mset xs"
  by (induction xs) (simp_all add: mset_sort_insert)

lemma set_array_sort: "set (array_sort cmp xs) = set xs"
  by (metis mset_array_sort set_mset_mset)

lemma mset_map_array_sort: "mset (map f (array_sort cmp xs)) = mset (map f xs)"
  by (simp add: mset_array_sort)

lemma category_rank_entry: "map RankedEntry.category (map (rank_entry r) cs) = cs"
  by (induction cs) (simp_all add: rank_entry_def)

lemma distinct_lifeCategories: "distinct lifeCategories"
  by (simp add: lifeCategories_def)

text \<open>
  Claim C2. For every input, \<open>priorityRanked\<close> has exactly 8 entries, and their
  categories are the 8 fixed categories, each once: none twice, none left out.
\<close>

theorem priorityRanked_one_per_category:
  "mset (map RankedEntry.category (CalculatedResults.priorityRanked (calculateResults d))) = mset lifeCategories
   \<and> distinct (map RankedEntry.category (CalculatedResults.priorityRanked (calculateResults d)))
   \<and> length (CalculatedResults.priorityRanked (calculateResults d)) = 8"
proof -
  let ?cats = "map RankedEntry.category (CalculatedResults.priorityRanked (calculateResults d))"
  let ?r = "fold (score_category d) lifeCategories empty_results"
  have "?cats = map RankedEntry.category
      (array_sort (\<lambda>a b. RankedEntry.priority b - RankedEntry.priority a) (map (rank_entry ?r) lifeCategories))"
    by (simp add: calculateResults_def Let_def)
  then have "mset ?cats = mset (map RankedEntry.category (map (rank_entry ?r) lifeCategories))"
    by (simp only: mset_map_array_sort)
  then have m: "mset ?cats = mset lifeCategories"
    by (simp only: category_rank_entry)
  have "distinct ?cats"
    using mset_eq_imp_distinct_iff [OF m] distinct_lifeCategories by simp
  moreover have "length ?cats = 8"
    using mset_eq_length [OF m] by (simp add: lifeCategories_def)
  ultimately show ?thesis using m by simp
qed

text \<open>
  Inserting into a list that is in ranking order keeps it so, when the new element came
  before all of the list in the original order \<open>Q\<close>.
\<close>

lemma sorted_wrt_sort_insert:
  fixes key :: "'a \<Rightarrow> number"
  assumes "sorted_wrt (\<lambda>x y. key y < key x \<or> (key x = key y \<and> Q x y)) bs"
    and "\<forall>b\<in>set bs. Q a b"
  shows "sorted_wrt (\<lambda>x y. key y < key x \<or> (key x = key y \<and> Q x y))
           (sort_insert (\<lambda>x y. key y - key x) a bs)"
  using assms
proof (induction bs)
  case Nil
  then show ?case by simp
next
  case (Cons b bs)
  show ?case
  proof (cases "key a < key b")
    case True
    have "set (sort_insert (\<lambda>x y. key y - key x) a bs) = insert a (set bs)"
      by (metis mset_sort_insert set_mset_mset set_mset_add_mset_insert)
    with True Cons show ?thesis by auto
  next
    case False
    with Cons.prems show ?thesis by fastforce
  qed
qed

lemma sorted_wrt_array_sort:
  fixes key :: "'a \<Rightarrow> number"
  assumes "sorted_wrt Q xs"
  shows "sorted_wrt (\<lambda>x y. key y < key x \<or> (key x = key y \<and> Q x y))
           (array_sort (\<lambda>x y. key y - key x) xs)"
  using assms
proof (induction xs)
  case Nil
  then show ?case by simp
next
  case (Cons a xs)
  then show ?case
    by (simp add: sorted_wrt_sort_insert set_array_sort)
qed

lemma lifeCategories_in_order:
  "sorted_wrt (\<lambda>x y. index_of lifeCategories x < index_of lifeCategories y) lifeCategories"
  by (simp add: lifeCategories_def)

text \<open>
  Claim C3. For every input, \<open>priorityRanked\<close> is in descending order of priority, and
  of any two entries with the same priority the one whose category comes first in
  \<open>lifeCategories\<close> comes first. \<open>sorted_wrt\<close> asks this of every pair of positions,
  not only of neighbours.
\<close>

theorem priorityRanked_sorted_stable:
  "sorted_wrt ranked_before (CalculatedResults.priorityRanked (calculateResults d))"
proof -
  let ?r = "fold (score_category d) lifeCategories empty_results"
  let ?Q = "\<lambda>a b. index_of lifeCategories (RankedEntry.category a)
                     < index_of lifeCategories (RankedEntry.category b)"
  have "sorted_wrt ?Q (map (rank_entry ?r) lifeCategories)"
    using lifeCategories_in_order by (simp add: sorted_wrt_map rank_entry_def)
  then have "sorted_wrt (\<lambda>x y. RankedEntry.priority y < RankedEntry.priority x
                 \<or> (RankedEntry.priority x = RankedEntry.priority y \<and> ?Q x y))
      (array_sort (\<lambda>x y. RankedEntry.priority y - RankedEntry.priority x) (map (rank_entry ?r) lifeCategories))"
    by (rule sorted_wrt_array_sort)
  then show ?thesis
    by (simp add: calculateResults_def Let_def ranked_before_def [abs_def])
qed

text \<open>
  An input with three ties (70, 30 and 4): each is resolved in the order of the
  enumeration.
\<close>

theorem priorityRanked_sorted_stable_witness:
  "sorted_wrt ranked_before (CalculatedResults.priorityRanked (calculateResults full_input))
   \<and> map RankedEntry.category (CalculatedResults.priorityRanked (calculateResults full_input)) =
       [''romance'', ''fun'', ''personal'', ''career'', ''health'', ''relationships'', ''community'', ''finances'']
   \<and> map RankedEntry.priority (CalculatedResults.priorityRanked (calculateResults full_input)) =
       [70, 70, 30, 30, 27, 4, 4, 0]"
proof -
  have "map (\<lambda>e. (RankedEntry.category e, RankedEntry.priority e))
          (CalculatedResults.priorityRanked (calculateResults full_input)) =
       [(''romance'', 70), (''fun'', 70), (''personal'', 30), (''career'', 30), (''health'', 27),
        (''relationships'', 4), (''community'', 4), (''finances'', 0)]"
    by code_simp
  then have "map (fst \<circ> (\<lambda>e. (RankedEntry.category e, RankedEntry.priority e)))
          (CalculatedResults.priorityRanked (calculateResults full_input)) =
       [''romance'', ''fun'', ''personal'', ''career'', ''health'', ''relationships'', ''community'', ''finances'']"
    and "map (snd \<circ> (\<lambda>e. (RankedEntry.category e, RankedEntry.priority e)))
          (CalculatedResults.priorityRanked (calculateResults full_input)) =
       [70, 70, 30, 30, 27, 4, 4, 0]"
    by (simp_all only: map_map [symmetric] list.map fst_conv snd_conv)
  then show ?thesis
    using priorityRanked_sorted_stable [of full_input] by (simp add: comp_def)
qed

subsection \<open>The two rating dictionaries of the result\<close>

lemma map_eq_scored:
  assumes "dom m = set lifeCategories" and "\<forall>c\<in>set lifeCategories. m c \<noteq> Some 0"
  shows "(\<lambda>c. if c \<in> set lifeCategories then Some (falsy_or (m c) 1) else None) = m"
proof
  fix c
  show "(if c \<in> set lifeCategories then Some (falsy_or (m c) 1) else None) = m c"
  proof (cases "c \<in> set lifeCategories")
    case True
    then have "c \<in> dom m" by (simp only: assms(1))
    then obtain v where v: "m c = Some v" by (auto simp: domIff)
    have "m c \<noteq> Some 0" using assms(2) True by (rule bspec)
    with v have "v \<noteq> 0" by simp
    with v True show ?thesis by simp
  next
    case False
    then have "c \<notin> dom m" by (simp only: assms(1) not_False_eq_True)
    then have "m c = None" by (simp only: domIff not_not)
    with False show ?thesis by simp
  qed
qed

text \<open>
  Claim C7, as amended. The satisfaction and motivation dictionaries of the result are
  rebuilt, not passed through: their keys are exactly the 8 fixed categories; at each of
  them the value is the input's rating when the input has one that is not 0, and 1
  otherwise; a key of the input outside the 8 categories is not carried over. They equal
  the raw dictionaries when those have exactly the 8 categories as keys and no rating 0.
\<close>

theorem ratings_output:
  "CalculatedResults.satisfaction (calculateResults d) c =
     (if c \<in> set lifeCategories then Some (falsy_or (AssessmentData.satisfaction d c) 1) else None)
   \<and> CalculatedResults.motivation (calculateResults d) c =
     (if c \<in> set lifeCategories then Some (falsy_or (AssessmentData.motivation d c) 1) else None)
   \<and> (dom (AssessmentData.satisfaction d) = set lifeCategories
        \<and> (\<forall>k\<in>set lifeCategories. AssessmentData.satisfaction d k \<noteq> Some 0)
      \<longrightarrow> CalculatedResults.satisfaction (calculateResults d) = AssessmentData.satisfaction d)
   \<and> (dom (AssessmentData.motivation d) = set lifeCategories
        \<and> (\<forall>k\<in>set lifeCategories. AssessmentData.motivation d k \<noteq> Some 0)
      \<longrightarrow> CalculatedResults.motivation (calculateResults d) = AssessmentData.motivation d)"
proof (intro conjI impI)
  assume h: "dom (AssessmentData.satisfaction d) = set lifeCategories
        \<and> (\<forall>k\<in>set lifeCategories. AssessmentData.satisfaction d k \<noteq> Some 0)"
  show "CalculatedResults.satisfaction (calculateResults d) = AssessmentData.satisfaction d"
    by (simp only: scored_maps map_eq_scored [OF conjunct1 [OF h] conjunct2 [OF h]])
next
  assume h: "dom (AssessmentData.motivation d) = set lifeCategories
        \<and> (\<forall>k\<in>set lifeCategories. AssessmentData.motivation d k \<noteq> Some 0)"
  show "CalculatedResults.motivation (calculateResults d) = AssessmentData.motivation d"
    by (simp only: scored_maps map_eq_scored [OF conjunct1 [OF h] conjunct2 [OF h]])
qed (simp_all only: scored_maps)

text \<open>An input with all 8 ratings: the dictionaries come back as they went in.\<close>

theorem ratings_output_witness:
  "CalculatedResults.satisfaction (calculateResults full_input) = AssessmentData.satisfaction full_input
   \<and> CalculatedResults.motivation (calculateResults full_input) = AssessmentData.motivation full_input
   \<and> CalculatedResults.satisfaction (calculateResults full_input) ''romance'' = Some 3
   \<and> CalculatedResults.satisfaction (calculateResults full_input) ''extra'' = None"
proof -
  have s: "dom (AssessmentData.satisfaction full_input) = set lifeCategories"
    by (simp add: full_input_def lifeCategories_def dom_map_of_conv_image_fst)
  have m: "dom (AssessmentData.motivation full_input) = set lifeCategories"
    by (simp add: full_input_def lifeCategories_def dom_map_of_conv_image_fst)
  have sz: "\<forall>k\<in>set lifeCategories. AssessmentData.satisfaction full_input k \<noteq> Some 0"
    by (simp add: full_input_def lifeCategories_def)
  have mz: "\<forall>k\<in>set lifeCategories. AssessmentData.motivation full_input k \<noteq> Some 0"
    by (simp add: full_input_def lifeCategories_def)
  have r: "AssessmentData.satisfaction full_input ''romance'' = Some 3"
    by (simp add: full_input_def)
  have x: "''extra'' \<notin> set lifeCategories"
    by (simp add: lifeCategories_def)
  note t = ratings_output [of full_input "''romance''"]
  have a: "CalculatedResults.satisfaction (calculateResults full_input) = AssessmentData.satisfaction full_input"
    using t s sz by blast
  have b: "CalculatedResults.motivation (calculateResults full_input) = AssessmentData.motivation full_input"
    using t m mz by blast
  have c: "CalculatedResults.satisfaction (calculateResults full_input) ''romance'' = Some 3"
    using a r by simp
  have e: "CalculatedResults.satisfaction (calculateResults full_input) ''extra'' = None"
    using ratings_output [of full_input "''extra''"] x by simp
  from a b c e show ?thesis by blast
qed

text \<open>
  The claim as written fails on the empty input: nothing goes in, and \<open>health\<close> comes
  out rated 1.
\<close>

theorem ratings_passed_through_counterexample:
  "CalculatedResults.satisfaction (calculateResults empty_input) ''health'' = Some 1
   \<and> AssessmentData.satisfaction empty_input ''health'' = None
   \<and> CalculatedResults.satisfaction (calculateResults empty_input) \<noteq> AssessmentData.satisfaction empty_input"
proof -
  have 1: "CalculatedResults.satisfaction (calculateResults empty_input) ''health'' = Some 1"
    by (simp add: scored_maps lifeCategories_def empty_input_def)
  have 2: "AssessmentData.satisfaction empty_input ''health'' = None"
    by (simp add: empty_input_def)
  from 1 2 show ?thesis by (metis option.distinct(1))
qed

subsection \<open>The client's copy\<close>

lemma client_score_category_eq: "client_score_category = score_category"
  by (intro ext) (simp add: client_score_category_def score_category_def)

lemma client_rank_entry_eq: "client_rank_entry = rank_entry"
  by (intro ext) (simp add: client_rank_entry_def rank_entry_def)

text \<open>
  Claim C8. The client's \<open>calculateResults\<close> and the server's return the same result on
  every input.
\<close>

theorem client_server_equal: "client_calculateResults d = calculateResults d"
  by (simp add: client_calculateResults_def calculateResults_def
      client_score_category_eq client_rank_entry_eq)

subsection \<open>What the result depends on\<close>

lemma score_category_cong:
  assumes "falsy_or (AssessmentData.satisfaction a c) 1 = falsy_or (AssessmentData.satisfaction b c) 1"
    and "falsy_or (AssessmentData.motivation a c) 1 = falsy_or (AssessmentData.motivation b c) 1"
  shows "score_category a c r = score_category b c r"
  using assms by (simp add: score_category_def)

lemma fold_score_category_cong:
  assumes "\<forall>c\<in>set cs.
      falsy_or (AssessmentData.satisfaction a c) 1 = falsy_or (AssessmentData.satisfaction b c) 1
    \<and> falsy_or (AssessmentData.motivation a c) 1 = falsy_or (AssessmentData.motivation b c) 1"
  shows "fold (score_category a) cs r = fold (score_category b) cs r"
  using assms
proof (induction cs arbitrary: r)
  case Nil
  then show ?case by simp
next
  case (Cons c cs)
  from Cons.prems have "score_category a c r = score_category b c r"
    by (intro score_category_cong) simp_all
  moreover from Cons.prems have "fold (score_category a) cs (score_category b c r)
      = fold (score_category b) cs (score_category b c r)"
    by (intro Cons.IH) simp
  ultimately show ?case by simp
qed

lemma calculateResults_cong:
  assumes "\<forall>c\<in>set lifeCategories.
      falsy_or (AssessmentData.satisfaction a c) 1 = falsy_or (AssessmentData.satisfaction b c) 1
    \<and> falsy_or (AssessmentData.motivation a c) 1 = falsy_or (AssessmentData.motivation b c) 1"
  shows "calculateResults a = calculateResults b"
  unfolding calculateResults_def using fold_score_category_cong [OF assms] by simp

text \<open>
  Claim C9. Keys outside the 8 fixed categories have no influence: two inputs whose
  satisfaction and motivation dictionaries agree on each of the 8 categories, whatever
  they hold elsewhere, get equal results.
\<close>

theorem other_keys_ignored:
  assumes "\<forall>c\<in>set lifeCategories.
      AssessmentData.satisfaction a c = AssessmentData.satisfaction b c
    \<and> AssessmentData.motivation a c = AssessmentData.motivation b c"
  shows "calculateResults a = calculateResults b"
  using assms by (intro calculateResults_cong) simp

text \<open>Two inputs that differ at the keys \<open>pets\<close>, \<open>sleep\<close> and \<open>x\<close> only.\<close>

theorem other_keys_ignored_witness:
  "list_all (\<lambda>c. AssessmentData.satisfaction example_input c = AssessmentData.satisfaction noisy_input c
                \<and> AssessmentData.motivation example_input c = AssessmentData.motivation noisy_input c)
     lifeCategories
   \<and> AssessmentData.satisfaction example_input ''pets'' \<noteq> AssessmentData.satisfaction noisy_input ''pets''
   \<and> calculateResults example_input = calculateResults noisy_input"
proof -
  have h: "\<forall>c\<in>set lifeCategories.
      AssessmentData.satisfaction example_input c = AssessmentData.satisfaction noisy_input c
    \<and> AssessmentData.motivation example_input c = AssessmentData.motivation noisy_input c"
    by (simp add: lifeCategories_def example_input_def noisy_input_def)
  have "AssessmentData.satisfaction example_input ''pets'' \<noteq> AssessmentData.satisfaction noisy_input ''pets''"
    by (simp add: example_input_def noisy_input_def)
  with h other_keys_ignored [OF h] show ?thesis by (simp add: list_all_iff)
qed

text \<open>
  Claim C10. At the scorer's interface a rating 0 is treated as an absent rating: the
  fallback is \<open>|| 1\<close>, so both are replaced by 1 before improvement and priority are
  computed. An input with \<open>satisfaction[c] = 0\<close>, or with \<open>motivation[c] = 0\<close>, gets the
  result of the same input with that entry removed (the whole result, so the part for
  \<open>c\<close> too); for a fixed category the stored rating is 1 and, for satisfaction, the
  improvement is 9.
\<close>

theorem zero_rating_as_absent:
  "(AssessmentData.satisfaction d c = Some 0 \<longrightarrow>
      calculateResults d =
        calculateResults (d\<lparr>AssessmentData.satisfaction := (AssessmentData.satisfaction d)(c := None)\<rparr>))
   \<and> (AssessmentData.motivation d c = Some 0 \<longrightarrow>
      calculateResults d =
        calculateResults (d\<lparr>AssessmentData.motivation := (AssessmentData.motivation d)(c := None)\<rparr>))
   \<and> (c \<in> set lifeCategories \<and> AssessmentData.satisfaction d c = Some 0 \<longrightarrow>
      CalculatedResults.satisfaction (calculateResults d) c = Some 1
      \<and> CalculatedResults.improvement (calculateResults d) c = Some 9)
   \<and> (c \<in> set lifeCategories \<and> AssessmentData.motivation d c = Some 0 \<longrightarrow>
      CalculatedResults.motivation (calculateResults d) c = Some 1)"
proof (intro conjI impI)
  assume z: "AssessmentData.satisfaction d c = Some 0"
  show "calculateResults d =
        calculateResults (d\<lparr>AssessmentData.satisfaction := (AssessmentData.satisfaction d)(c := None)\<rparr>)"
    by (rule calculateResults_cong) (simp add: z)
next
  assume z: "AssessmentData.motivation d c = Some 0"
  show "calculateResults d =
        calculateResults (d\<lparr>AssessmentData.motivation := (AssessmentData.motivation d)(c := None)\<rparr>)"
    by (rule calculateResults_cong) (simp add: z)
next
  assume "c \<in> set lifeCategories \<and> AssessmentData.satisfaction d c = Some 0"
  then show "CalculatedResults.satisfaction (calculateResults d) c = Some 1"
    by (simp add: scored_maps)
next
  assume "c \<in> set lifeCategories \<and> AssessmentData.satisfaction d c = Some 0"
  then show "CalculatedResults.improvement (calculateResults d) c = Some 9"
    by (simp add: scored_maps)
next
  assume "c \<in> set lifeCategories \<and> AssessmentData.motivation d c = Some 0"
  then show "CalculatedResults.motivation (calculateResults d) c = Some 1"
    by (simp add: scored_maps)
qed

text \<open>Health with satisfaction 0, career with motivation 0.\<close>

theorem zero_rating_as_absent_witness:
  "AssessmentData.satisfaction zero_input ''health'' = Some 0
   \<and> AssessmentData.motivation zero_input ''career'' = Some 0
   \<and> calculateResults zero_input =
       calculateResults \<lparr> AssessmentData.satisfaction = [''career'' \<mapsto> 4],
                          AssessmentData.motivation = [''health'' \<mapsto> 9, ''career'' \<mapsto> 0] \<rparr>
   \<and> calculateResults zero_input =
       calculateResults \<lparr> AssessmentData.satisfaction = [''health'' \<mapsto> 0, ''career'' \<mapsto> 4],
                          AssessmentData.motivation = [''health'' \<mapsto> 9] \<rparr>
   \<and> CalculatedResults.satisfaction (calculateResults zero_input) ''health'' = Some 1
   \<and> CalculatedResults.improvement (calculateResults zero_input) ''health'' = Some 9
   \<and> CalculatedResults.motivation (calculateResults zero_input) ''career'' = Some 1"
proof -
  have s: "AssessmentData.satisfaction zero_input ''health'' = Some 0"
    and m: "AssessmentData.motivation zero_input ''career'' = Some 0"
    by (simp_all add: zero_input_def)
  have h: "''health'' \<in> set lifeCategories" and c: "''career'' \<in> set lifeCategories"
    by (simp_all add: lifeCategories_def)
  have 1: "zero_input\<lparr>AssessmentData.satisfaction := (AssessmentData.satisfaction zero_input)(''health'' := None)\<rparr>
      = \<lparr> AssessmentData.satisfaction = [''career'' \<mapsto> 4],
          AssessmentData.motivation = [''health'' \<mapsto> 9, ''career'' \<mapsto> 0] \<rparr>"
    by (simp add: zero_input_def fun_upd_twist)
  have 2: "zero_input\<lparr>AssessmentData.motivation := (AssessmentData.motivation zero_input)(''career'' := None)\<rparr>
      = \<lparr> AssessmentData.satisfaction = [''health'' \<mapsto> 0, ''career'' \<mapsto> 4],
          AssessmentData.motivation = [''health'' \<mapsto> 9] \<rparr>"
    by (simp add: zero_input_def)
  show ?thesis
    using zero_rating_as_absent [of zero_input "''health''"]
      zero_rating_as_absent [of zero_input "''career''"] s m h c
    unfolding 1 2 by blast
qed

section \<open>The mail endpoint\<close>

subsection \<open>The schema against its description\<close>

lemma error_is_ZodError: "(e::error) = ZodError"
  by (cases e) simp

lemma record_entries_ok:
  "list_all (\<lambda>kv. rating_ok (snd kv)) kvs \<Longrightarrow> \<exists>vs. record_entries z_number_min1_max10 kvs = Inr vs"
proof (induction kvs)
  case Nil
  then show ?case by simp
next
  case (Cons kv kvs)
  obtain k j where kv: "kv = (k, j)" by (cases kv)
  from Cons.prems kv have "rating_ok j" by simp
  then obtain v where "z_number_min1_max10 j = Inr v"
    by (cases j) simp_all
  moreover from Cons obtain vs where "record_entries z_number_min1_max10 kvs = Inr vs"
    by auto
  ultimately show ?case using kv by simp
qed

lemma record_entries_bad:
  "\<not> list_all (\<lambda>kv. rating_ok (snd kv)) kvs \<Longrightarrow> record_entries z_number_min1_max10 kvs = Inl ZodError"
proof (induction kvs)
  case Nil
  then show ?case by simp
next
  case (Cons kv kvs)
  obtain k j where kv: "kv = (k, j)" by (cases kv)
  show ?case
  proof (cases "rating_ok j")
    case True
    then obtain v where v: "z_number_min1_max10 j = Inr v"
      by (cases j) simp_all
    from True Cons.prems kv have "\<not> list_all (\<lambda>kv. rating_ok (snd kv)) kvs" by simp
    then have "record_entries z_number_min1_max10 kvs = Inl ZodError" by (rule Cons.IH)
    with v kv show ?thesis by simp
  next
    case False
    then have "z_number_min1_max10 j = Inl ZodError"
      by (cases j) simp_all
    with kv show ?thesis by simp
  qed
qed

lemma ratings_schema_ok:
  "ratings_ok x \<Longrightarrow> \<exists>vs. required (z_record z_number_min1_max10) x = Inr vs"
  by (induction x rule: ratings_ok.induct) (simp_all add: record_entries_ok)

lemma ratings_schema_bad:
  "\<not> ratings_ok x \<Longrightarrow> required (z_record z_number_min1_max10) x = Inl ZodError"
  by (induction x rule: ratings_ok.induct) (simp_all add: record_entries_bad)

lemma assessmentSchema_ok: "assessment_ok j \<Longrightarrow> \<not> isl (assessmentSchema j)"
proof (cases j)
  case (JObj props)
  assume "assessment_ok j"
  with JObj have "ratings_ok (map_of props ''satisfaction'')" "ratings_ok (map_of props ''motivation'')"
    by simp_all
  then obtain s m where "required (z_record z_number_min1_max10) (map_of props ''satisfaction'') = Inr s"
    "required (z_record z_number_min1_max10) (map_of props ''motivation'') = Inr m"
    using ratings_schema_ok by blast
  with JObj show ?thesis by simp
qed simp_all

lemma assessmentSchema_bad: "\<not> assessment_ok j \<Longrightarrow> assessmentSchema j = Inl ZodError"
proof (cases j)
  case (JObj props)
  assume "\<not> assessment_ok j"
  with JObj have "\<not> ratings_ok (map_of props ''satisfaction'') \<or> \<not> ratings_ok (map_of props ''motivation'')"
    by simp
  then have "required (z_record z_number_min1_max10) (map_of props ''satisfaction'') = Inl ZodError
    \<or> required (z_record z_number_min1_max10) (map_of props ''motivation'') = Inl ZodError"
    using ratings_schema_bad by blast
  with JObj show ?thesis by (auto split: sum.splits simp: error_is_ZodError)
qed simp_all

lemma emailResultsSchema_bad_assessment:
  assumes "\<not> body_assessment_ok body"
  shows "emailResultsSchema is_email body = Inl ZodError"
proof (cases body)
  case (JObj props)
  have "required assessmentSchema (map_of props ''assessmentData'') = Inl ZodError"
  proof (cases "map_of props ''assessmentData''")
    case None
    then show ?thesis by simp
  next
    case (Some j)
    with assms JObj have "\<not> assessment_ok j" by (simp add: body_assessment_ok_def)
    with Some show ?thesis by (simp add: assessmentSchema_bad)
  qed
  with JObj show ?thesis by (simp split: sum.splits add: error_is_ZodError)
qed simp_all

lemma emailResultsSchema_bad_email:
  assumes "\<not> body_email_ok is_email body"
  shows "emailResultsSchema is_email body = Inl ZodError"
proof (cases body)
  case (JObj props)
  have "required (z_string_email is_email) (map_of props ''email'') = Inl ZodError"
  proof (cases "map_of props ''email''")
    case None
    then show ?thesis by simp
  next
    case (Some j)
    with assms JObj show ?thesis by (cases j) (simp_all add: body_email_ok_def)
  qed
  with JObj show ?thesis by simp
qed simp_all

lemma email_results_rejected:
  assumes "emailResultsSchema is_email body = Inl ZodError"
  shows "email_results is_email sendMail env body =
     (if unset (env ''GMAIL_USER'') \<or> unset (env ''GMAIL_APP_PASSWORD'') then not_configured else failed, [])"
  using assms by (simp add: email_results_def)

text \<open>
  Claim C4, as amended. The schema rejects every \<open>assessmentData\<close> of malformed shape
  (not an object, or \<open>satisfaction\<close> or \<open>motivation\<close> missing or not an object) and
  every one holding a rating that is not a number or lies outside [1, 10], and it accepts
  every other one: a rating need not be an integer. For a request body whose
  \<open>assessmentData\<close> is rejected or missing, validation fails and the handler neither
  scores nor sends.
\<close>

theorem assessment_schema_rejects:
  "isl (assessmentSchema j) = (\<not> assessment_ok j)
   \<and> (\<not> body_assessment_ok body \<longrightarrow>
        emailResultsSchema is_email body = Inl ZodError
        \<and> snd (email_results is_email sendMail env body) = [])"
proof (intro conjI impI)
  show "isl (assessmentSchema j) = (\<not> assessment_ok j)"
    using assessmentSchema_ok [of j] assessmentSchema_bad [of j] by (cases "assessment_ok j") simp_all
next
  assume h: "\<not> body_assessment_ok body"
  then show "emailResultsSchema is_email body = Inl ZodError"
    by (rule emailResultsSchema_bad_assessment)
  then show "snd (email_results is_email sendMail env body) = []"
    by (simp add: email_results_rejected)
qed

text \<open>A body with a rating 11 is rejected; the ratings 5.5 and 9 are accepted.\<close>

theorem assessment_schema_rejects_witness:
  "\<not> body_assessment_ok high_rating_body
   \<and> emailResultsSchema has_at high_rating_body = Inl ZodError
   \<and> snd (email_results has_at always_delivers configured_env high_rating_body) = []
   \<and> assessment_ok half_rating_assessment
   \<and> \<not> isl (assessmentSchema half_rating_assessment)"
proof -
  have 1: "\<not> body_assessment_ok high_rating_body"
    by (simp add: body_assessment_ok_def high_rating_body_def)
  have 2: "assessment_ok half_rating_assessment"
    by (simp add: half_rating_assessment_def)
  from 1 2 show ?thesis
    using assessment_schema_rejects
      [of half_rating_assessment high_rating_body has_at always_delivers configured_env]
    by simp
qed

text \<open>
  The claim as written fails at the rating 5.5, which is not an integer: the schema
  accepts it, and with both secrets set the handler scores it and sends the mail.
\<close>

theorem non_integer_rating_counterexample:
  "(11 / 2 :: rat) \<notin> \<int>
   \<and> assessmentSchema half_rating_assessment =
       Inr \<lparr> AssessmentData.satisfaction = map_of [(''health'', 11 / 2)],
             AssessmentData.motivation = map_of [(''health'', 9)] \<rparr>
   \<and> fst (email_results has_at always_delivers configured_env half_rating_body) = sent
   \<and> map is_Scored (snd (email_results has_at always_delivers configured_env half_rating_body)) = [True, False]"
  by (simp add: half_rating_assessment_def half_rating_body_def email_results_def
      configured_env_def has_at_def always_delivers_def Let_def)

subsection \<open>The handler\<close>

text \<open>
  Claim C5. If either of \<open>GMAIL_USER\<close> and \<open>GMAIL_APP_PASSWORD\<close> is absent, the
  endpoint answers with the "not configured" failure, whatever the body, and the trace is
  empty: no send is attempted (nor anything scored). The answer differs from the two
  other answers of the handler.
\<close>

theorem missing_secret_not_configured:
  assumes "env ''GMAIL_USER'' = None \<or> env ''GMAIL_APP_PASSWORD'' = None"
  shows "email_results is_email sendMail env body = (not_configured, [])
       \<and> not_configured \<noteq> failed \<and> not_configured \<noteq> sent"
  using assms by (auto simp: email_results_def not_configured_def failed_def sent_def)

text \<open>A valid request, with the password missing.\<close>

theorem missing_secret_not_configured_witness:
  "user_only_env ''GMAIL_APP_PASSWORD'' = None
   \<and> \<not> isl (emailResultsSchema has_at good_body)
   \<and> email_results has_at always_delivers user_only_env good_body = (not_configured, [])"
proof -
  have 1: "user_only_env ''GMAIL_APP_PASSWORD'' = None"
    by (simp add: user_only_env_def)
  have 2: "\<not> isl (emailResultsSchema has_at good_body)"
    by (simp add: good_body_def has_at_def)
  from 1 2 show ?thesis
    using missing_secret_not_configured [of user_only_env has_at always_delivers good_body]
    by simp
qed

text \<open>
  Claim C6, as amended. For a request whose \<open>email\<close> field is not a valid address
  (missing, not a string, or not an address), nothing is scored and no send is attempted.
  The answer is the "not configured" failure when a secret is unset, since the handler
  looks at the secrets before it looks at the body; when both secrets are set it is the
  failure answer of the handler's catch-all, the one a failed delivery gets too.
\<close>

theorem invalid_email_rejected:
  assumes "\<not> body_email_ok is_email body"
  shows "snd (email_results is_email sendMail env body) = []
       \<and> fst (email_results is_email sendMail env body) =
           (if unset (env ''GMAIL_USER'') \<or> unset (env ''GMAIL_APP_PASSWORD'')
            then not_configured else failed)"
  using emailResultsSchema_bad_email [OF assms] by (simp add: email_results_rejected)

text \<open>A body with a bad address, both secrets set.\<close>

theorem invalid_email_rejected_witness:
  "\<not> body_email_ok has_at bad_email_body
   \<and> snd (email_results has_at always_delivers configured_env bad_email_body) = []
   \<and> fst (email_results has_at always_delivers configured_env bad_email_body) = failed"
proof -
  have 1: "\<not> body_email_ok has_at bad_email_body"
    by (simp add: body_email_ok_def bad_email_body_def has_at_def)
  have 2: "\<not> (unset (configured_env ''GMAIL_USER'') \<or> unset (configured_env ''GMAIL_APP_PASSWORD''))"
    by (simp add: configured_env_def)
  from 1 2 show ?thesis
    using invalid_email_rejected [of has_at bad_email_body always_delivers configured_env]
    by simp
qed

text \<open>
  The claim as written fails when a secret is missing: the bad address is never looked
  at, and the answer is the configuration failure.
\<close>

theorem invalid_email_counterexample:
  "\<not> body_email_ok has_at bad_email_body
   \<and> fst (email_results has_at always_delivers user_only_env bad_email_body) = not_configured
   \<and> not_configured \<noteq> failed"
  by (simp add: body_email_ok_def bad_email_body_def has_at_def email_results_def
      user_only_env_def not_configured_def failed_def)

end
